theory Spec2Isabelle
  imports Complex_Main
begin

section \<open>Common Go notions\<close>

text \<open>
  The Go sources work on \<^verbatim>\<open>float64\<close> values, wall-clock times and channels.
  \<^item> A \<^verbatim>\<open>float64\<close> is a value of the type \<open>f64\<close> below: a finite number, an infinity
    or NaN, with the comparisons and the rounded arithmetic of IEEE 754 binary64.
  \<^item> A \<^verbatim>\<open>time.Time\<close> is a natural number; every call of \<^verbatim>\<open>time.Now()\<close> becomes a
    parameter of the function that makes it.
  \<^item> A channel is its buffer, its capacity and its closed flag. Closing a closed channel
    and sending on a closed channel panic, as the Go language defines.
  \<^item> Mutexes are omitted: every modelled function runs its critical section atomically.
\<close>

type_synonym time = nat

datatype go_panic = CloseOfClosedChannel | SendOnClosedChannel

record 'a chan =
  chan_buf :: "'a list"
  chan_cap :: nat
  chan_closed :: bool

definition make_chan :: "nat \<Rightarrow> 'a chan" where
  "make_chan n = \<lparr>chan_buf = [], chan_cap = n, chan_closed = False\<rparr>"

text \<open>\<^verbatim>\<open>close(ch)\<close>: panics when the channel is closed already.\<close>

definition close_chan :: "'a chan \<Rightarrow> go_panic + 'a chan" where
  "close_chan ch =
     (if chan_closed ch then Inl CloseOfClosedChannel
      else Inr (ch\<lparr>chan_closed := True\<rparr>))"

text \<open>
  What a call does: it returns (with the state it leaves), it panics (with the state at the
  panic), or it blocks on a full channel.
\<close>

datatype 's outcome = Returns 's | Panics go_panic 's | Blocks 's

text \<open>\<^verbatim>\<open>ch <- v\<close> on a buffered channel.\<close>

definition send_chan :: "'a \<Rightarrow> 'a chan \<Rightarrow> ('a chan) outcome" where
  "send_chan v ch =
     (if chan_closed ch then Panics SendOnClosedChannel ch
      else if length (chan_buf ch) < chan_cap ch then Returns (ch\<lparr>chan_buf := chan_buf ch @ [v]\<rparr>)
      else Blocks ch)"

section \<open>The type float64\<close>

text \<open>
  A \<^verbatim>\<open>float64\<close> is a finite number, one of the two infinities, or NaN. The finite
  values that occur are the binary64 numbers, since every arithmetic result is rounded by
  \<open>round64\<close>. The two zeros \<open>+0\<close> and \<open>-0\<close> are one value here: they are equal in every
  comparison, and the sources modelled below never divide by a value that can be zero and
  never read a sign bit.
\<close>

datatype f64 = Fin real | PInf | NInf | NaN

type_synonym float64 = f64

text \<open>The power of two with an integer exponent.\<close>

definition pow2 :: "int \<Rightarrow> real" where
  "pow2 e = (if e \<ge> 0 then 2 ^ nat e else 1 / 2 ^ nat (- e))"

text \<open>Rounding a real number to an integer, to the nearest one, and to the even one of the
  two when it lies half way.\<close>

definition round_even :: "real \<Rightarrow> int" where
  "round_even r =
     (let f = \<lfloor>r\<rfloor>; d = r - of_int f
      in if d < 1/2 then f else if d > 1/2 then f + 1 else if even f then f else f + 1)"

text \<open>The exponent of the unit in the last place of the binary64 numbers around a non-zero
  \<open>x\<close>: 52 below the binary exponent of \<open>x\<close>, and at least -1074 (the subnormal
  numbers).\<close>

definition ulp_exp :: "real \<Rightarrow> int" where
  "ulp_exp x = max (\<lfloor>log 2 \<bar>x\<bar>\<rfloor> - 52) (- 1074)"

text \<open>Rounding to nearest, ties to even, as every binary64 operation of Go rounds its exact
  result; a result of magnitude \<open>2 ^ 1024\<close> or more overflows to an infinity.\<close>

definition round64 :: "real \<Rightarrow> f64" where
  "round64 x =
     (if x = 0 then Fin 0
      else
        let e = ulp_exp x;
            y = of_int (round_even (x / pow2 e)) * pow2 e
        in if \<bar>y\<bar> \<ge> pow2 1024 then (if x > 0 then PInf else NInf) else Fin y)"

text \<open>The comparisons \<^verbatim>\<open><\<close>, \<^verbatim>\<open>>\<close>, \<^verbatim>\<open><=\<close> and \<^verbatim>\<open>>=\<close>: each is false when an operand is
  NaN.\<close>

fun flt :: "f64 \<Rightarrow> f64 \<Rightarrow> bool" where
  "flt (Fin a) (Fin b) = (a < b)"
| "flt (Fin a) PInf = True"
| "flt NInf (Fin b) = True"
| "flt NInf PInf = True"
| "flt _ _ = False"

definition fgt :: "f64 \<Rightarrow> f64 \<Rightarrow> bool" where
  "fgt a b = flt b a"

fun fle :: "f64 \<Rightarrow> f64 \<Rightarrow> bool" where
  "fle (Fin a) (Fin b) = (a \<le> b)"
| "fle NaN _ = False"
| "fle _ NaN = False"
| "fle NInf _ = True"
| "fle _ PInf = True"
| "fle _ _ = False"

definition fge :: "f64 \<Rightarrow> f64 \<Rightarrow> bool" where
  "fge a b = fle b a"

text \<open>\<^verbatim>\<open>math.Abs\<close> and the unary minus.\<close>

fun fabs :: "f64 \<Rightarrow> f64" where
  "fabs (Fin a) = Fin \<bar>a\<bar>"
| "fabs PInf = PInf"
| "fabs NInf = PInf"
| "fabs NaN = NaN"

fun fneg :: "f64 \<Rightarrow> f64" where
  "fneg (Fin a) = Fin (- a)"
| "fneg PInf = NInf"
| "fneg NInf = PInf"
| "fneg NaN = NaN"

text \<open>Addition, subtraction, multiplication and division. Each operation rounds on its
  own: a product and the sum that follows it are not fused into one rounding.\<close>

fun fadd :: "f64 \<Rightarrow> f64 \<Rightarrow> f64" where
  "fadd (Fin a) (Fin b) = round64 (a + b)"
| "fadd NaN _ = NaN"
| "fadd _ NaN = NaN"
| "fadd PInf NInf = NaN"
| "fadd NInf PInf = NaN"
| "fadd PInf _ = PInf"
| "fadd _ PInf = PInf"
| "fadd NInf _ = NInf"
| "fadd _ NInf = NInf"

definition fsub :: "f64 \<Rightarrow> f64 \<Rightarrow> f64" where
  "fsub a b = fadd a (fneg b)"

fun fmul :: "f64 \<Rightarrow> f64 \<Rightarrow> f64" where
  "fmul (Fin a) (Fin b) = round64 (a * b)"
| "fmul NaN _ = NaN"
| "fmul _ NaN = NaN"
| "fmul (Fin a) PInf = (if a = 0 then NaN else if a > 0 then PInf else NInf)"
| "fmul (Fin a) NInf = (if a = 0 then NaN else if a > 0 then NInf else PInf)"
| "fmul PInf (Fin b) = (if b = 0 then NaN else if b > 0 then PInf else NInf)"
| "fmul NInf (Fin b) = (if b = 0 then NaN else if b > 0 then NInf else PInf)"
| "fmul PInf PInf = PInf"
| "fmul PInf NInf = NInf"
| "fmul NInf PInf = NInf"
| "fmul NInf NInf = PInf"

text \<open>In a division by zero the divisor is \<open>+0\<close>; the sources divide only by the length
  of a non-empty buffer.\<close>

fun fdiv :: "f64 \<Rightarrow> f64 \<Rightarrow> f64" where
  "fdiv (Fin a) (Fin b) =
     (if b = 0 then (if a = 0 then NaN else if a > 0 then PInf else NInf)
      else round64 (a / b))"
| "fdiv NaN _ = NaN"
| "fdiv _ NaN = NaN"
| "fdiv (Fin a) PInf = Fin 0"
| "fdiv (Fin a) NInf = Fin 0"
| "fdiv PInf (Fin b) = (if b \<ge> 0 then PInf else NInf)"
| "fdiv NInf (Fin b) = (if b \<ge> 0 then NInf else PInf)"
| "fdiv _ _ = NaN"

text \<open>A constant of the source text that is not a binary64 number, such as \<^verbatim>\<open>0.01\<close>, is
  converted by rounding: it is \<open>round64\<close> of the decimal. The constants 0, 0.5, 0.75, 1
  and 180 are binary64 numbers and are written \<open>Fin\<close> of themselves. The conversion
  \<^verbatim>\<open>float64(n)\<close> of an integer rounds in the same way.\<close>

section \<open>Motion controller (package motion)\<close>

type_synonym MotorID = string

datatype MotorType = MotorServo | MotorStepper | MotorDC

record Motor =
  ID :: MotorID
  Type :: MotorType
  Position :: float64
  Speed :: float64
  MaxSpeed :: float64
  MinPosition :: float64
  MaxPosition :: float64
  IsEnabled :: bool

text \<open>The fields of \<^verbatim>\<open>MotorCommand\<close> are \<^verbatim>\<open>ID\<close>, \<^verbatim>\<open>Position\<close> and \<^verbatim>\<open>Speed\<close>; they carry
  a prefix here because a record's field names are global.\<close>

record MotorCommand =
  cmdID :: MotorID
  cmdPosition :: float64
  cmdSpeed :: float64

text \<open>The controller: the motor table, the running flag and the two channels. The pattern
  table plays no part in command execution or integration and is left out.\<close>

record Controller =
  motors :: "MotorID \<rightharpoonup> Motor"
  running :: bool
  controlChan :: "MotorCommand chan"
  ctl_done :: "unit chan"

definition servo_1 :: Motor where
  "servo_1 = \<lparr>ID = ''servo_1'', Type = MotorServo, Position = Fin 0, Speed = Fin 0,
     MaxSpeed = Fin 180, MinPosition = Fin 0, MaxPosition = Fin 180, IsEnabled = True\<rparr>"

definition servo_2 :: Motor where
  "servo_2 = \<lparr>ID = ''servo_2'', Type = MotorServo, Position = Fin 0, Speed = Fin 0,
     MaxSpeed = Fin 180, MinPosition = Fin 0, MaxPosition = Fin 180, IsEnabled = True\<rparr>"

definition NewController :: Controller where
  "NewController =
     \<lparr>motors = [''servo_1'' \<mapsto> servo_1, ''servo_2'' \<mapsto> servo_2],
      running = True,
      controlChan = make_chan 100,
      ctl_done = make_chan 0\<rparr>"

text \<open>The three errors \<^verbatim>\<open>executeCommand\<close> creates with \<^verbatim>\<open>errors.New\<close>.\<close>

datatype exec_error = MotorNotFound | MotorDisabled | OutOfRange

fun error_text :: "exec_error \<Rightarrow> string" where
  "error_text MotorNotFound = ''motor not found''"
| "error_text MotorDisabled = ''motor is disabled''"
| "error_text OutOfRange = ''position out of range''"

text \<open>\<^verbatim>\<open>executeCommand\<close> returns the error (\<open>None\<close> for \<^verbatim>\<open>nil\<close>) and the controller it
  leaves.\<close>

definition executeCommand :: "MotorCommand \<Rightarrow> Controller \<Rightarrow> exec_error option \<times> Controller" where
  "executeCommand cmd c =
     (case motors c (cmdID cmd) of
        None \<Rightarrow> (Some MotorNotFound, c)
      | Some motor \<Rightarrow>
          if \<not> IsEnabled motor then (Some MotorDisabled, c)
          else if flt (cmdPosition cmd) (MinPosition motor) \<or>
                  fgt (cmdPosition cmd) (MaxPosition motor)
          then (Some OutOfRange, c)
          else
            let speed = fabs (cmdSpeed cmd);
                speed = (if fgt speed (MaxSpeed motor) then MaxSpeed motor else speed)
            in (None, c\<lparr>motors := (motors c)(cmdID cmd \<mapsto>
                          motor\<lparr>Position := cmdPosition cmd, Speed := speed\<rparr>)\<rparr>))"

text \<open>The body of the loop of \<^verbatim>\<open>updateMotorStates\<close>, for one motor.\<close>

definition updateMotor :: "Motor \<Rightarrow> Motor" where
  "updateMotor motor =
     (if \<not> IsEnabled motor then motor
      else
        let delta = fmul (Speed motor) (round64 0.01);
            newPos = fadd (Position motor) delta
        in if flt newPos (MinPosition motor)
           then motor\<lparr>Speed := Fin 0, Position := MinPosition motor\<rparr>
           else if fgt newPos (MaxPosition motor)
           then motor\<lparr>Speed := Fin 0, Position := MaxPosition motor\<rparr>
           else motor\<lparr>Position := newPos\<rparr>)"

text \<open>The loop visits every motor of the table once; the motors are independent of each
  other, so the order of the visit does not matter.\<close>

definition updateMotorStates :: "Controller \<Rightarrow> Controller" where
  "updateMotorStates c = c\<lparr>motors := (\<lambda>k. map_option updateMotor (motors c k))\<rparr>"

text \<open>The worker \<^verbatim>\<open>processCommands\<close> selects, again and again, a command from the control
  channel or a tick of the 10 ms ticker, until \<^verbatim>\<open>done\<close> fires. The sequence of its
  selections is the list it is given here; the error of a command is dropped, as the
  worker drops it.\<close>

datatype ctl_event = Command MotorCommand | Tick

fun processCommands :: "ctl_event list \<Rightarrow> Controller \<Rightarrow> Controller" where
  "processCommands [] c = c"
| "processCommands (Command cmd # es) c = processCommands es (snd (executeCommand cmd c))"
| "processCommands (Tick # es) c = processCommands es (updateMotorStates c)"

definition Controller_Shutdown :: "Controller \<Rightarrow> Controller outcome" where
  "Controller_Shutdown c =
     (let c1 = c\<lparr>running := False\<rparr> in
      case close_chan (ctl_done c1) of
        Inl p \<Rightarrow> Panics p c1
      | Inr d \<Rightarrow>
          let c2 = c1\<lparr>ctl_done := d\<rparr> in
          (case close_chan (controlChan c2) of
             Inl p \<Rightarrow> Panics p c2
           | Inr ch \<Rightarrow>
               Returns (c2\<lparr>controlChan := ch,
                 motors := (\<lambda>k. map_option (\<lambda>motor. motor\<lparr>IsEnabled := False, Speed := Fin 0\<rparr>)
                                 (motors c2 k))\<rparr>)))"

section \<open>Behavior analyzer (package behavior)\<close>

text \<open>\<^verbatim>\<open>BehaviorType\<close> is a string type in Go; the four constants are the only values the
  analyzer ever produces.\<close>

datatype BehaviorType = BehaviorNormal | BehaviorAggressive | BehaviorPassive | BehaviorErratic

record PatternMetrics =
  Intensity :: float64
  Frequency :: float64
  Duration :: float64
  Consistency :: float64

record BehaviorPattern =
  bpType :: BehaviorType
  Confidence :: float64
  Timestamp :: time
  Metrics :: PatternMetrics

record Analyzer =
  patterns :: "BehaviorPattern list"
  currentState :: BehaviorType
  threshold :: float64
  windowSize :: int
  inputChan :: "PatternMetrics chan"
  an_done :: "unit chan"

text \<open>\<^verbatim>\<open>windowSize\<close> is a \<^verbatim>\<open>time.Duration\<close>, a count of nanoseconds.\<close>

definition NewAnalyzer :: Analyzer where
  "NewAnalyzer =
     \<lparr>patterns = [],
      currentState = BehaviorNormal,
      threshold = Fin 0.75,
      windowSize = 5 * (60 * 1000000000),
      inputChan = make_chan 100,
      an_done = make_chan 0\<rparr>"

definition classifyBehavior :: "float64 \<Rightarrow> float64 \<Rightarrow> BehaviorType" where
  "classifyBehavior intensity frequency =
     (if fgt intensity (round64 0.8) \<and> fgt frequency (round64 0.8) then BehaviorAggressive
      else if flt intensity (round64 0.2) \<and> flt frequency (round64 0.2) then BehaviorPassive
      else if fgt (fabs (fsub intensity frequency)) (Fin 0.5) then BehaviorErratic
      else BehaviorNormal)"

definition calculateConfidence :: "float64 \<Rightarrow> float64" where
  "calculateConfidence consistency =
     (let confidence = consistency in
      if fgt confidence (Fin 1) then Fin 1
      else if flt confidence (Fin 0) then Fin 0
      else confidence)"

text \<open>The summing loop of \<^verbatim>\<open>analyzeBuffer\<close>: the four running sums \<^verbatim>\<open>avgIntensity\<close>,
  \<^verbatim>\<open>avgFrequency\<close>, \<^verbatim>\<open>avgDuration\<close> and \<^verbatim>\<open>avgConsistency\<close>, in this order.\<close>

fun sum_buffer ::
  "PatternMetrics list \<Rightarrow> float64 \<times> float64 \<times> float64 \<times> float64
     \<Rightarrow> float64 \<times> float64 \<times> float64 \<times> float64" where
  "sum_buffer [] acc = acc"
| "sum_buffer (m # ms) (i, f, d, c) =
     sum_buffer ms
       (fadd i (Intensity m), fadd f (Frequency m), fadd d (Duration m),
        fadd c (Consistency m))"

definition analyzeBuffer :: "time \<Rightarrow> PatternMetrics list \<Rightarrow> BehaviorPattern" where
  "analyzeBuffer now buffer =
     (if length buffer = 0
      then \<lparr>bpType = BehaviorNormal, Confidence = Fin 1, Timestamp = now,
            Metrics = \<lparr>Intensity = Fin 0, Frequency = Fin 0, Duration = Fin 0,
                        Consistency = Fin 0\<rparr>\<rparr>
      else
        case sum_buffer buffer (Fin 0, Fin 0, Fin 0, Fin 0) of
          (sumIntensity, sumFrequency, sumDuration, sumConsistency) \<Rightarrow>
            let n = round64 (real (length buffer));
                avgIntensity = fdiv sumIntensity n;
                avgFrequency = fdiv sumFrequency n;
                avgDuration = fdiv sumDuration n;
                avgConsistency = fdiv sumConsistency n;
                behaviorType = classifyBehavior avgIntensity avgFrequency;
                confidence = calculateConfidence avgConsistency
            in \<lparr>bpType = behaviorType, Confidence = confidence, Timestamp = now,
                Metrics = \<lparr>Intensity = avgIntensity, Frequency = avgFrequency,
                            Duration = avgDuration, Consistency = avgConsistency\<rparr>\<rparr>)"

definition addPattern :: "BehaviorPattern \<Rightarrow> Analyzer \<Rightarrow> Analyzer" where
  "addPattern pattern a =
     (let a1 = a\<lparr>patterns := patterns a @ [pattern]\<rparr>;
          a2 = (if length (patterns a1) > 1000 then a1\<lparr>patterns := drop 1 (patterns a1)\<rparr> else a1)
      in if fge (Confidence pattern) (threshold a2)
         then a2\<lparr>currentState := bpType pattern\<rparr> else a2)"

text \<open>The worker \<^verbatim>\<open>processPatterns\<close> selects, again and again, metrics from the input
  channel or a tick of the one-second ticker, until \<^verbatim>\<open>done\<close> fires; \<^verbatim>\<open>buffer\<close> is its
  local variable. The sequence of its selections is the list it is given here.\<close>

datatype an_event = Input PatternMetrics | AnTick time

fun processPatterns :: "an_event list \<Rightarrow> PatternMetrics list \<Rightarrow> Analyzer \<Rightarrow> Analyzer" where
  "processPatterns [] buffer a = a"
| "processPatterns (Input metrics # es) buffer a =
     processPatterns es
       (if length (buffer @ [metrics]) > 60 then drop 1 (buffer @ [metrics])
        else buffer @ [metrics]) a"
| "processPatterns (AnTick now # es) buffer a =
     (if length buffer > 0
      then processPatterns es buffer (addPattern (analyzeBuffer now buffer) a)
      else processPatterns es buffer a)"

definition GetCurrentState :: "Analyzer \<Rightarrow> BehaviorType" where
  "GetCurrentState a = currentState a"

definition GetPatternHistory :: "Analyzer \<Rightarrow> BehaviorPattern list" where
  "GetPatternHistory a = patterns a"

definition Analyzer_Shutdown :: "Analyzer \<Rightarrow> Analyzer outcome" where
  "Analyzer_Shutdown a =
     (case close_chan (an_done a) of
        Inl p \<Rightarrow> Panics p a
      | Inr d \<Rightarrow>
          let a1 = a\<lparr>an_done := d\<rparr> in
          (case close_chan (inputChan a1) of
             Inl p \<Rightarrow> Panics p a1
           | Inr ch \<Rightarrow> Returns (a1\<lparr>inputChan := ch\<rparr>)))"

section \<open>Sensor hub (package sensor)\<close>

type_synonym SensorType = string

definition TypeTouch :: SensorType where "TypeTouch = ''touch''"
definition TypePressure :: SensorType where "TypePressure = ''pressure''"
definition TypeMotion :: SensorType where "TypeMotion = ''motion''"
definition TypeTemp :: SensorType where "TypeTemp = ''temperature''"

text \<open>The fields of \<^verbatim>\<open>SensorData\<close> are \<^verbatim>\<open>Type\<close>, \<^verbatim>\<open>Value\<close> and \<^verbatim>\<open>Timestamp\<close>.\<close>

record SensorData =
  sdType :: SensorType
  sdValue :: float64
  sdTimestamp :: time

record Hub =
  sensors :: "SensorType \<rightharpoonup> float64 list"
  dataChan :: "SensorData chan"
  hub_done :: "unit chan"

definition NewHub :: Hub where
  "NewHub =
     \<lparr>sensors = [TypeTouch \<mapsto> [], TypePressure \<mapsto> [], TypeMotion \<mapsto> [], TypeTemp \<mapsto> []],
      dataChan = make_chan 100,
      hub_done = make_chan 0\<rparr>"

text \<open>Reading a key that a Go map does not hold gives the zero value, here the nil slice,
  which \<^verbatim>\<open>append\<close> and \<^verbatim>\<open>len\<close> treat as the empty slice.\<close>

definition sensors_at :: "Hub \<Rightarrow> SensorType \<Rightarrow> float64 list" where
  "sensors_at h t = (case sensors h t of None \<Rightarrow> [] | Some xs \<Rightarrow> xs)"

text \<open>What \<^verbatim>\<open>processData\<close> does with one reading it has received from \<^verbatim>\<open>dataChan\<close>.\<close>

definition store_reading :: "SensorData \<Rightarrow> Hub \<Rightarrow> Hub" where
  "store_reading data h =
     (let h1 = h\<lparr>sensors := (sensors h)(sdType data \<mapsto> sensors_at h (sdType data) @ [sdValue data])\<rparr>
      in if length (sensors_at h1 (sdType data)) > 1000
         then h1\<lparr>sensors := (sensors h1)(sdType data \<mapsto> drop 1 (sensors_at h1 (sdType data)))\<rparr>
         else h1)"

text \<open>The worker \<^verbatim>\<open>processData\<close>, given the readings it receives, in order, until
  \<^verbatim>\<open>done\<close> fires.\<close>

fun processData :: "SensorData list \<Rightarrow> Hub \<Rightarrow> Hub" where
  "processData [] h = h"
| "processData (data # ds) h = processData ds (store_reading data h)"

definition AddSensorData :: "SensorData \<Rightarrow> Hub \<Rightarrow> Hub outcome" where
  "AddSensorData data h =
     (case send_chan data (dataChan h) of
        Returns ch \<Rightarrow> Returns (h\<lparr>dataChan := ch\<rparr>)
      | Panics p ch \<Rightarrow> Panics p h
      | Blocks ch \<Rightarrow> Blocks h)"

definition GetSensorData :: "SensorType \<Rightarrow> Hub \<Rightarrow> float64 list" where
  "GetSensorData sType h = (case sensors h sType of Some data \<Rightarrow> data | None \<Rightarrow> [])"

definition Hub_Shutdown :: "Hub \<Rightarrow> Hub outcome" where
  "Hub_Shutdown h =
     (case close_chan (hub_done h) of
        Inl p \<Rightarrow> Panics p h
      | Inr d \<Rightarrow>
          let h1 = h\<lparr>hub_done := d\<rparr> in
          (case close_chan (dataChan h1) of
             Inl p \<Rightarrow> Panics p h1
           | Inr ch \<Rightarrow> Returns (h1\<lparr>dataChan := ch\<rparr>)))"

section \<open>Safety monitor (package safety)\<close>

text \<open>\<^verbatim>\<open>SafetyLevel\<close> is an \<^verbatim>\<open>int\<close>; its four constants are numbered by \<^verbatim>\<open>iota\<close>.\<close>

type_synonym SafetyLevel = int

definition SafetyNormal :: SafetyLevel where "SafetyNormal = 0"
definition SafetyWarning :: SafetyLevel where "SafetyWarning = 1"
definition SafetyCritical :: SafetyLevel where "SafetyCritical = 2"
definition SafetyEmergency :: SafetyLevel where "SafetyEmergency = 3"

text \<open>The monitor's reference to the core system is used by the worker only to decide
  when to stop, and is left out.\<close>

record SafetyMonitor =
  currentLevel :: SafetyLevel
  lastCheck :: time
  warnings :: "string list"

definition InitializeSafetyProtocols :: "time \<Rightarrow> SafetyMonitor" where
  "InitializeSafetyProtocols now =
     \<lparr>currentLevel = SafetyNormal, lastCheck = now, warnings = []\<rparr>"

text \<open>\<^verbatim>\<open>performSafetyCheck\<close> stamps the time and writes a log line.\<close>

definition performSafetyCheck :: "time \<Rightarrow> SafetyMonitor \<Rightarrow> SafetyMonitor" where
  "performSafetyCheck now s = s\<lparr>lastCheck := now\<rparr>"

definition AddWarning :: "string \<Rightarrow> SafetyMonitor \<Rightarrow> SafetyMonitor" where
  "AddWarning warning s =
     (let s1 = s\<lparr>warnings := warnings s @ [warning]\<rparr>;
          s2 = (if length (warnings s1) > 10 then s1\<lparr>currentLevel := SafetyWarning\<rparr> else s1)
      in if length (warnings s2) > 20 then s2\<lparr>currentLevel := SafetyCritical\<rparr> else s2)"

definition GetCurrentLevel :: "SafetyMonitor \<Rightarrow> SafetyLevel" where
  "GetCurrentLevel s = currentLevel s"

text \<open>The operations that reach the monitor after its initialisation: calls of
  \<^verbatim>\<open>AddWarning\<close> and the checks of the periodic worker \<^verbatim>\<open>runSafetyChecks\<close>.\<close>

datatype safety_op = OpAddWarning string | OpSafetyCheck time

fun apply_safety_op :: "safety_op \<Rightarrow> SafetyMonitor \<Rightarrow> SafetyMonitor" where
  "apply_safety_op (OpAddWarning w) s = AddWarning w s"
| "apply_safety_op (OpSafetyCheck now) s = performSafetyCheck now s"

fun run_safety :: "safety_op list \<Rightarrow> SafetyMonitor \<Rightarrow> SafetyMonitor" where
  "run_safety [] s = s"
| "run_safety (x # xs) s = run_safety xs (apply_safety_op x s)"

fun is_add_warning :: "safety_op \<Rightarrow> bool" where
  "is_add_warning (OpAddWarning w) = True"
| "is_add_warning (OpSafetyCheck now) = False"

section \<open>Invariants, reference notions and concrete inputs\<close>

text \<open>A finite value is a \<^verbatim>\<open>float64\<close> when rounding leaves it as it is.\<close>

definition is_f64 :: "f64 \<Rightarrow> bool" where
  "is_f64 x = (case x of Fin r \<Rightarrow> round64 r = Fin r | _ \<Rightarrow> True)"

text \<open>What holds of every motor of a controller that has only executed integration steps and
  commands without NaN since \<^verbatim>\<open>NewController\<close>: it is enabled, its bounds are finite,
  and its position and speed are finite and within them.\<close>

definition motor_ok :: "Motor \<Rightarrow> bool" where
  "motor_ok m =
     (IsEnabled m \<and>
      (\<exists>lo hi ms p v. MinPosition m = Fin lo \<and> MaxPosition m = Fin hi \<and> MaxSpeed m = Fin ms \<and>
         Position m = Fin p \<and> Speed m = Fin v \<and> lo \<le> p \<and> p \<le> hi \<and> \<bar>v\<bar> \<le> ms))"

definition motors_ok :: "Controller \<Rightarrow> bool" where
  "motors_ok c = (\<forall>k m. motors c k = Some m \<longrightarrow> motor_ok m)"

fun event_without_nan :: "ctl_event \<Rightarrow> bool" where
  "event_without_nan (Command cmd) = (cmdPosition cmd \<noteq> NaN \<and> cmdSpeed cmd \<noteq> NaN)"
| "event_without_nan Tick = True"

text \<open>The average as the analyzer computes it: the running sum from 0, left to right,
  divided by the converted length, every operation rounded.\<close>

definition favg :: "f64 list \<Rightarrow> f64" where
  "favg xs = fdiv (foldl fadd (Fin 0) xs) (round64 (real (length xs)))"

text \<open>The arithmetic mean and the classification rule, as the specification words them,
  on real numbers, and the number that a finite \<^verbatim>\<open>float64\<close> stands for.\<close>

fun fin_value :: "f64 \<Rightarrow> real" where
  "fin_value (Fin r) = r"
| "fin_value _ = 0"

definition mean :: "real list \<Rightarrow> real" where
  "mean xs = sum_list xs / real (length xs)"

definition spec_classify :: "real \<Rightarrow> real \<Rightarrow> BehaviorType" where
  "spec_classify intensity frequency =
     (if intensity > 0.8 \<and> frequency > 0.8 then BehaviorAggressive
      else if intensity < 0.2 \<and> frequency < 0.2 then BehaviorPassive
      else if \<bar>intensity - frequency\<bar> > 0.5 then BehaviorErratic
      else BehaviorNormal)"

text \<open>The safety level that belongs to a number of warnings.\<close>

definition level_for :: "nat \<Rightarrow> SafetyLevel" where
  "level_for n =
     (if n > 20 then SafetyCritical else if n > 10 then SafetyWarning else SafetyNormal)"

definition safety_inv :: "SafetyMonitor \<Rightarrow> bool" where
  "safety_inv s = (currentLevel s = level_for (length (warnings s)))"

text \<open>The components after their first shutdown.\<close>

definition stopped_controller :: Controller where
  "stopped_controller =
     \<lparr>motors = [''servo_1'' \<mapsto> servo_1\<lparr>IsEnabled := False\<rparr>,
                ''servo_2'' \<mapsto> servo_2\<lparr>IsEnabled := False\<rparr>],
      running = False,
      controlChan = \<lparr>chan_buf = [], chan_cap = 100, chan_closed = True\<rparr>,
      ctl_done = \<lparr>chan_buf = [], chan_cap = 0, chan_closed = True\<rparr>\<rparr>"

definition closed_hub :: Hub where
  "closed_hub =
     NewHub\<lparr>dataChan := \<lparr>chan_buf = [], chan_cap = 100, chan_closed = True\<rparr>,
            hub_done := \<lparr>chan_buf = [], chan_cap = 0, chan_closed = True\<rparr>\<rparr>"

definition closed_analyzer :: Analyzer where
  "closed_analyzer =
     NewAnalyzer\<lparr>inputChan := \<lparr>chan_buf = [], chan_cap = 100, chan_closed = True\<rparr>,
                 an_done := \<lparr>chan_buf = [], chan_cap = 0, chan_closed = True\<rparr>\<rparr>"

text \<open>Commands, readings, metrics and patterns used as concrete inputs.\<close>

definition cmd_nan :: MotorCommand where
  "cmd_nan = \<lparr>cmdID = ''servo_1'', cmdPosition = NaN, cmdSpeed = Fin 0\<rparr>"

definition cmd_nan_speed :: MotorCommand where
  "cmd_nan_speed = \<lparr>cmdID = ''servo_1'', cmdPosition = Fin 90, cmdSpeed = NaN\<rparr>"

definition cmd_beyond :: MotorCommand where
  "cmd_beyond = \<lparr>cmdID = ''servo_1'', cmdPosition = Fin 200, cmdSpeed = Fin 10\<rparr>"

definition cmd_unknown :: MotorCommand where
  "cmd_unknown = \<lparr>cmdID = ''servo_9'', cmdPosition = Fin 90, cmdSpeed = Fin 10\<rparr>"

definition cmd_reverse :: MotorCommand where
  "cmd_reverse = \<lparr>cmdID = ''servo_1'', cmdPosition = Fin 90, cmdSpeed = Fin (- 50)\<rparr>"

definition reading0 :: SensorData where
  "reading0 = \<lparr>sdType = ''touch'', sdValue = Fin 0.5, sdTimestamp = 7\<rparr>"

definition sample_buffer :: "PatternMetrics list" where
  "sample_buffer =
     [\<lparr>Intensity = Fin 1, Frequency = Fin 1, Duration = Fin 1, Consistency = Fin 1\<rparr>,
      \<lparr>Intensity = Fin 1, Frequency = Fin 1, Duration = Fin 3, Consistency = Fin 2\<rparr>]"

text \<open>One sample with intensity 1 and frequency \<open>1/2 - 2 powr -54\<close>, the binary64 number
  just below one half.\<close>

definition tie_buffer :: "PatternMetrics list" where
  "tie_buffer =
     [\<lparr>Intensity = Fin 1, Frequency = Fin (1 / 2 - 1 / 2 ^ 54), Duration = Fin 1,
       Consistency = Fin 1\<rparr>]"

text \<open>One sample whose consistency is NaN.\<close>

definition nan_buffer :: "PatternMetrics list" where
  "nan_buffer =
     [\<lparr>Intensity = Fin 1, Frequency = Fin 1, Duration = Fin 1, Consistency = NaN\<rparr>]"

definition low_pattern :: BehaviorPattern where
  "low_pattern = \<lparr>bpType = BehaviorErratic, Confidence = Fin 0.5, Timestamp = 1,
     Metrics = \<lparr>Intensity = Fin 1, Frequency = Fin 0, Duration = Fin 1,
                 Consistency = Fin 0.5\<rparr>\<rparr>"

definition high_pattern :: BehaviorPattern where
  "high_pattern = \<lparr>bpType = BehaviorAggressive, Confidence = Fin 0.75, Timestamp = 2,
     Metrics = \<lparr>Intensity = Fin 1, Frequency = Fin 1, Duration = Fin 1,
                 Consistency = Fin 0.75\<rparr>\<rparr>"

definition full_analyzer :: Analyzer where
  "full_analyzer = NewAnalyzer\<lparr>patterns := replicate 1000 low_pattern\<rparr>"

section \<open>Rounding: evaluation\<close>

lemma pow2_powr: "pow2 e = 2 powr of_int e"
  by (simp add: pow2_def powr_int)

lemma ulp_exp_eval:
  assumes "pow2 k \<le> \<bar>x\<bar>" and "\<bar>x\<bar> < pow2 (k + 1)"
  shows "ulp_exp x = max (k - 52) (- 1074)"
proof -
  have "0 < pow2 k" by (simp add: pow2_powr)
  with assms(1) have "0 < \<bar>x\<bar>" by linarith
  then have "\<lfloor>log 2 \<bar>x\<bar>\<rfloor> = k"
    using assms by (simp add: floor_log_eq_powr_iff pow2_powr)
  then show ?thesis by (simp add: ulp_exp_def)
qed

text \<open>How a rounding is computed: find the binade of \<open>x\<close>, scale by the unit in the last
  place, round to an integer, scale back.\<close>

lemma round64_eval:
  assumes "pow2 k \<le> \<bar>x\<bar>" and "\<bar>x\<bar> < pow2 (k + 1)"
    and "e = max (k - 52) (- 1074)"
    and "round_even (x / pow2 e) = m" and "\<bar>of_int m * pow2 e\<bar> < pow2 1024"
  shows "round64 x = Fin (of_int m * pow2 e)"
proof -
  have "0 < pow2 k" by (simp add: pow2_powr)
  with assms(1) have "x \<noteq> 0" by auto
  then show ?thesis
    using assms ulp_exp_eval [OF assms(1,2)] by (simp add: round64_def Let_def)
qed

lemma round64_not_NaN: "round64 x \<noteq> NaN"
  by (simp add: round64_def Let_def)

lemma round64_0: "round64 0 = Fin 0"
  by (simp add: round64_def)

lemma round64_1: "round64 1 = Fin 1"
proof -
  have "round64 1 = Fin (of_int (2 ^ 52) * pow2 (- 52))"
    by (rule round64_eval [where k = 0]) (simp_all add: pow2_def round_even_def)
  then show ?thesis by (simp add: pow2_def)
qed

lemma round64_2: "round64 2 = Fin 2"
proof -
  have "round64 2 = Fin (of_int (2 ^ 52) * pow2 (- 51))"
    by (rule round64_eval [where k = 1]) (simp_all add: pow2_def round_even_def)
  then show ?thesis by (simp add: pow2_def)
qed

lemma round64_3: "round64 3 = Fin 3"
proof -
  have "round64 3 = Fin (of_int (3 * 2 ^ 51) * pow2 (- 51))"
    by (rule round64_eval [where k = 1]) (simp_all add: pow2_def round_even_def)
  then show ?thesis by (simp add: pow2_def)
qed

lemma round64_4: "round64 4 = Fin 4"
proof -
  have "round64 4 = Fin (of_int (2 ^ 52) * pow2 (- 50))"
    by (rule round64_eval [where k = 2]) (simp_all add: pow2_def round_even_def)
  then show ?thesis by (simp add: pow2_def)
qed

lemma round64_3_2: "round64 (3 / 2) = Fin (3 / 2)"
proof -
  have "round64 (3 / 2) = Fin (of_int (3 * 2 ^ 51) * pow2 (- 52))"
    by (rule round64_eval [where k = 0]) (simp_all add: pow2_def round_even_def)
  then show ?thesis by (simp add: pow2_def)
qed

text \<open>The constants that the definitions write as \<open>Fin\<close> of themselves are binary64
  numbers.\<close>

lemma round64_180: "round64 180 = Fin 180"
proof -
  have "round64 180 = Fin (of_int (180 * 2 ^ 45) * pow2 (- 45))"
    by (rule round64_eval [where k = 7]) (simp_all add: pow2_def round_even_def)
  then show ?thesis by (simp add: pow2_def)
qed

lemma round64_3_4: "round64 (3 / 4) = Fin (3 / 4)"
proof -
  have "round64 (3 / 4) = Fin (of_int (3 * 2 ^ 51) * pow2 (- 53))"
    by (rule round64_eval [where k = "- 1"]) (simp_all add: pow2_def round_even_def)
  then show ?thesis by (simp add: pow2_def)
qed

lemma round64_1_2: "round64 (1 / 2) = Fin (1 / 2)"
proof -
  have "round64 (1 / 2) = Fin (of_int (2 ^ 52) * pow2 (- 53))"
    by (rule round64_eval [where k = "- 1"]) (simp_all add: pow2_def round_even_def)
  then show ?thesis by (simp add: pow2_def)
qed

text \<open>The constants 0.8, 0.2 and 0.01 as binary64 numbers.\<close>

lemma round64_0_8: "round64 (8 / 10) = Fin (7205759403792794 / 2 ^ 53)"
proof -
  have "round64 (8 / 10) = Fin (of_int 7205759403792794 * pow2 (- 53))"
    by (rule round64_eval [where k = "- 1"]) (simp_all add: pow2_def round_even_def)
  then show ?thesis by (simp add: pow2_def)
qed

lemma round64_0_2: "round64 (2 / 10) = Fin (7205759403792794 / 2 ^ 55)"
proof -
  have "round64 (2 / 10) = Fin (of_int 7205759403792794 * pow2 (- 55))"
    by (rule round64_eval [where k = "- 3"]) (simp_all add: pow2_def round_even_def)
  then show ?thesis by (simp add: pow2_def)
qed

lemma round64_0_01: "round64 (1 / 100) = Fin (5764607523034235 / 2 ^ 59)"
proof -
  have "round64 (1 / 100) = Fin (of_int 5764607523034235 * pow2 (- 59))"
    by (rule round64_eval [where k = "- 7"]) (simp_all add: pow2_def round_even_def)
  then show ?thesis by (simp add: pow2_def)
qed

lemma round64_consts:
  "round64 (4 / 5) = Fin (7205759403792794 / 2 ^ 53)"
  "round64 (1 / 5) = Fin (7205759403792794 / 2 ^ 55)"
  using round64_0_8 round64_0_2 by simp_all

text \<open>The number just below one half is a binary64 number, and the number half way between
  one half and its successor rounds to one half, the even neighbour.\<close>

lemma round64_below_half: "round64 (1 / 2 - 1 / 2 ^ 54) = Fin (1 / 2 - 1 / 2 ^ 54)"
proof -
  have "round64 (1 / 2 - 1 / 2 ^ 54) = Fin (of_int (2 ^ 53 - 1) * pow2 (- 54))"
    by (rule round64_eval [where k = "- 2"]) (simp_all add: pow2_def round_even_def)
  then show ?thesis by (simp add: pow2_def)
qed

lemma round64_tie: "round64 (1 / 2 + 1 / 2 ^ 54) = Fin (1 / 2)"
proof -
  have "round64 (1 / 2 + 1 / 2 ^ 54) = Fin (of_int (2 ^ 52) * pow2 (- 53))"
    by (rule round64_eval [where k = "- 1"]) (simp_all add: pow2_def round_even_def)
  then show ?thesis by (simp add: pow2_def)
qed

lemma round64_near_half:
  "round64 (9007199254740991 / 18014398509481984) = Fin (9007199254740991 / 18014398509481984)"
  "round64 (9007199254740993 / 18014398509481984) = Fin (1 / 2)"
  using round64_below_half round64_tie by simp_all

text \<open>Comparisons of values that are not NaN.\<close>

lemma not_flt_fle: "a \<noteq> NaN \<Longrightarrow> b \<noteq> NaN \<Longrightarrow> \<not> flt a b \<Longrightarrow> fle b a"
  by (cases a; cases b) simp_all

lemma fle_not_flt: "fle a b \<Longrightarrow> \<not> flt b a"
  by (cases a; cases b) simp_all

section \<open>Motion controller: bounds, rejection and acceptance of commands\<close>

lemma motor_ok_fle:
  assumes "motor_ok m"
  shows "fle (MinPosition m) (Position m) \<and> fle (Position m) (MaxPosition m) \<and>
         fle (fabs (Speed m)) (MaxSpeed m)"
  using assms by (auto simp: motor_ok_def)

lemma updateMotor_ok:
  assumes "motor_ok m"
  shows "motor_ok (updateMotor m)"
proof -
  from assms obtain lo hi ms p v where
    m: "IsEnabled m" "MinPosition m = Fin lo" "MaxPosition m = Fin hi" "MaxSpeed m = Fin ms"
       "Position m = Fin p" "Speed m = Fin v" "lo \<le> p" "p \<le> hi" "\<bar>v\<bar> \<le> ms"
    by (auto simp: motor_ok_def)
  define newPos where "newPos = fadd (Position m) (fmul (Speed m) (round64 0.01))"
  have "fmul (Speed m) (round64 0.01) \<noteq> NaN"
    using m by (simp add: round64_0_01 round64_not_NaN)
  then have "newPos \<noteq> NaN"
    unfolding newPos_def using m
    by (cases "fmul (Speed m) (round64 0.01)") (simp_all add: round64_not_NaN)
  have upd: "updateMotor m =
      (if flt newPos (MinPosition m) then m\<lparr>Speed := Fin 0, Position := MinPosition m\<rparr>
       else if fgt newPos (MaxPosition m) then m\<lparr>Speed := Fin 0, Position := MaxPosition m\<rparr>
       else m\<lparr>Position := newPos\<rparr>)"
    using m by (simp add: updateMotor_def Let_def newPos_def)
  show ?thesis
    using \<open>newPos \<noteq> NaN\<close> m unfolding upd
    by (cases newPos) (auto simp: motor_ok_def fgt_def)
qed

lemma updateMotorStates_ok: "motors_ok c \<Longrightarrow> motors_ok (updateMotorStates c)"
  by (auto simp: motors_ok_def updateMotorStates_def updateMotor_ok)

lemma motor_ok_set:
  assumes "motor_ok m" and "p \<noteq> NaN" and "s \<noteq> NaN"
    and "\<not> flt p (MinPosition m)" and "\<not> fgt p (MaxPosition m)"
  shows "motor_ok (m\<lparr>Position := p,
           Speed := (if fgt (fabs s) (MaxSpeed m) then MaxSpeed m else fabs s)\<rparr>)"
  using assms by (cases p; cases s) (auto simp: motor_ok_def fgt_def)

lemma executeCommand_ok:
  assumes "motors_ok c" and "cmdPosition cmd \<noteq> NaN" and "cmdSpeed cmd \<noteq> NaN"
  shows "motors_ok (snd (executeCommand cmd c))"
proof (cases "motors c (cmdID cmd)")
  case None
  then show ?thesis using assms by (simp add: executeCommand_def)
next
  case (Some motor)
  with assms have "motor_ok motor" unfolding motors_ok_def by blast
  then show ?thesis
    using assms Some motor_ok_set [of motor "cmdPosition cmd" "cmdSpeed cmd"]
    by (auto simp: executeCommand_def motors_ok_def Let_def)
qed

lemma NewController_ok: "motors_ok NewController"
  by (auto simp: motors_ok_def NewController_def motor_ok_def servo_1_def servo_2_def
      split: if_splits)

lemma processCommands_ok:
  "motors_ok c \<Longrightarrow> list_all event_without_nan evs \<Longrightarrow> motors_ok (processCommands evs c)"
  by (induction evs c rule: processCommands.induct)
     (simp_all add: executeCommand_ok updateMotorStates_ok)

text \<open>What the code does keep: as long as no command carries a NaN, the position of every
  motor stays within its bounds and the magnitude of its speed within its maximum speed, in
  the comparisons of \<^verbatim>\<open>float64\<close>.\<close>

lemma bounds_hold_without_nan:
  assumes "list_all event_without_nan evs"
    and "motors (processCommands evs NewController) k = Some m"
  shows "fle (MinPosition m) (Position m) \<and> fle (Position m) (MaxPosition m) \<and>
         fle (fabs (Speed m)) (MaxSpeed m)"
proof -
  have "motors_ok (processCommands evs NewController)"
    by (rule processCommands_ok [OF NewController_ok assms(1)])
  with assms(2) have "motor_ok m"
    unfolding motors_ok_def by blast
  then show ?thesis by (rule motor_ok_fle)
qed

text \<open>An integration step that clamps the position of an enabled motor, at either boundary,
  sets its speed to 0 in the same step. The test is the code's own: the rounded sum
  \<open>newPos\<close> against the bound.\<close>

lemma updateMotor_clamps:
  assumes "IsEnabled m"
    and "newPos = fadd (Position m) (fmul (Speed m) (round64 0.01))"
  shows "(flt newPos (MinPosition m) \<longrightarrow>
            updateMotor m = m\<lparr>Speed := Fin 0, Position := MinPosition m\<rparr>) \<and>
         (\<not> flt newPos (MinPosition m) \<and> fgt newPos (MaxPosition m) \<longrightarrow>
            updateMotor m = m\<lparr>Speed := Fin 0, Position := MaxPosition m\<rparr>) \<and>
         (\<not> flt newPos (MinPosition m) \<and> \<not> fgt newPos (MaxPosition m) \<longrightarrow>
            updateMotor m = m\<lparr>Position := newPos\<rparr>)"
  using assms by (simp add: updateMotor_def Let_def)

lemma Controller_Shutdown_New: "Controller_Shutdown NewController = Returns stopped_controller"
  by (auto simp: Controller_Shutdown_def NewController_def stopped_controller_def close_chan_def
      make_chan_def servo_1_def servo_2_def Let_def fun_eq_iff)

text \<open>
  C1. The claim is that after every sequence of commands and integration steps the position
  of every motor lies within its bounds. The range test of \<^verbatim>\<open>executeCommand\<close> is made of
  the two comparisons \<^verbatim>\<open><\<close> and \<^verbatim>\<open>>\<close>, and both are false for NaN. So a new controller
  accepts the command that sends servo_1 to the position NaN, without an error, and stores
  NaN as the position of the motor. That position is neither at least the minimum position
  0 nor at most the maximum position 180, and the next integration step leaves it NaN, since
  its two comparisons are false as well. A command with the speed NaN is accepted in the
  same way: the magnitude NaN does not exceed the maximum speed in the code's comparison,
  the speed NaN is stored, and the next integration step makes the position NaN too.
\<close>

theorem nan_position_is_stored:
  "fst (executeCommand cmd_nan NewController) = None \<and>
   motors (processCommands [Command cmd_nan] NewController) ''servo_1''
     = Some (servo_1\<lparr>Position := NaN\<rparr>) \<and>
   \<not> fle (MinPosition servo_1) NaN \<and> \<not> fle NaN (MaxPosition servo_1) \<and>
   motors (processCommands [Command cmd_nan, Tick] NewController) ''servo_1''
     = Some (servo_1\<lparr>Position := NaN\<rparr>) \<and>
   fst (executeCommand cmd_nan_speed NewController) = None \<and>
   motors (processCommands [Command cmd_nan_speed] NewController) ''servo_1''
     = Some (servo_1\<lparr>Position := Fin 90, Speed := NaN\<rparr>) \<and>
   \<not> fle (fabs NaN) (MaxSpeed servo_1) \<and>
   motors (processCommands [Command cmd_nan_speed, Tick] NewController) ''servo_1''
     = Some (servo_1\<lparr>Position := NaN, Speed := NaN\<rparr>)"
proof -
  have e: "executeCommand cmd_nan NewController =
      (None, NewController\<lparr>motors := (motors NewController)(''servo_1'' \<mapsto>
         servo_1\<lparr>Position := NaN\<rparr>)\<rparr>)"
    by (simp add: executeCommand_def cmd_nan_def NewController_def servo_1_def fgt_def Let_def)
  have u: "updateMotor (servo_1\<lparr>Position := NaN\<rparr>) = servo_1\<lparr>Position := NaN\<rparr>"
    by (simp add: updateMotor_def servo_1_def round64_0_01 round64_0 fgt_def Let_def)
  have e': "executeCommand cmd_nan_speed NewController =
      (None, NewController\<lparr>motors := (motors NewController)(''servo_1'' \<mapsto>
         servo_1\<lparr>Position := Fin 90, Speed := NaN\<rparr>)\<rparr>)"
    by (simp add: executeCommand_def cmd_nan_speed_def NewController_def servo_1_def fgt_def
        Let_def)
  have u': "updateMotor (servo_1\<lparr>Position := Fin 90, Speed := NaN\<rparr>)
              = servo_1\<lparr>Position := NaN, Speed := NaN\<rparr>"
    by (simp add: updateMotor_def servo_1_def round64_0_01 fgt_def Let_def)
  show ?thesis
    by (simp add: e e' updateMotorStates_def u u') (simp add: servo_1_def)
qed

text \<open>
  C2, as the code has it. A command for a motor that the table does not hold returns
  \<open>MotorNotFound\<close>; a command for a disabled motor returns \<open>MotorDisabled\<close>, whatever its
  target position is; a command for an enabled motor whose target position lies outside the
  motor's minimum and maximum position returns \<open>OutOfRange\<close>. In all three cases the
  controller that is left is the controller that was given: no motor has changed.
\<close>

theorem executeCommand_rejects:
  "(motors c (cmdID cmd) = None \<longrightarrow> executeCommand cmd c = (Some MotorNotFound, c)) \<and>
   (\<forall>m. motors c (cmdID cmd) = Some m \<and> \<not> IsEnabled m \<longrightarrow>
      executeCommand cmd c = (Some MotorDisabled, c)) \<and>
   (\<forall>m. motors c (cmdID cmd) = Some m \<and> IsEnabled m \<and>
        (flt (cmdPosition cmd) (MinPosition m) \<or> fgt (cmdPosition cmd) (MaxPosition m)) \<longrightarrow>
      executeCommand cmd c = (Some OutOfRange, c))"
  by (auto simp: executeCommand_def)

theorem executeCommand_rejects_witness:
  "executeCommand cmd_unknown NewController = (Some MotorNotFound, NewController) \<and>
   executeCommand cmd_beyond stopped_controller = (Some MotorDisabled, stopped_controller) \<and>
   executeCommand cmd_beyond NewController = (Some OutOfRange, NewController)"
proof -
  have a: "motors NewController (cmdID cmd_unknown) = None"
    by (simp add: NewController_def cmd_unknown_def)
  have b: "motors stopped_controller (cmdID cmd_beyond) = Some (servo_1\<lparr>IsEnabled := False\<rparr>)
           \<and> \<not> IsEnabled (servo_1\<lparr>IsEnabled := False\<rparr>)"
    by (simp add: stopped_controller_def cmd_beyond_def)
  have c: "motors NewController (cmdID cmd_beyond) = Some servo_1 \<and> IsEnabled servo_1 \<and>
           (flt (cmdPosition cmd_beyond) (MinPosition servo_1) \<or>
            fgt (cmdPosition cmd_beyond) (MaxPosition servo_1))"
    by (simp add: NewController_def cmd_beyond_def servo_1_def fgt_def)
  show ?thesis
    using a b c executeCommand_rejects [of NewController cmd_unknown]
      executeCommand_rejects [of stopped_controller cmd_beyond]
      executeCommand_rejects [of NewController cmd_beyond]
    by blast
qed

text \<open>The claim as worded promises \<open>OutOfRange\<close> for every target position outside the
  motor's bounds. After \<^verbatim>\<open>Shutdown\<close> servo_1 is disabled; a command that sends it to 200
  degrees, beyond its maximum of 180, is answered with \<open>MotorDisabled\<close>.\<close>

theorem out_of_range_on_disabled_motor_counterexample:
  "Controller_Shutdown NewController = Returns stopped_controller \<and>
   motors stopped_controller (cmdID cmd_beyond) = Some (servo_1\<lparr>IsEnabled := False\<rparr>) \<and>
   fgt (cmdPosition cmd_beyond) (MaxPosition (servo_1\<lparr>IsEnabled := False\<rparr>)) \<and>
   executeCommand cmd_beyond stopped_controller = (Some MotorDisabled, stopped_controller) \<and>
   fst (executeCommand cmd_beyond stopped_controller) \<noteq> Some OutOfRange"
  by (simp add: Controller_Shutdown_New)
     (simp add: executeCommand_def stopped_controller_def cmd_beyond_def servo_1_def fgt_def)

text \<open>
  C9, as the code has it. A command for an enabled motor of the table whose target position
  passes the range test (as every target position within the motor's bounds does) returns
  no error, sets the motor's position to the target position and sets the motor's speed to
  the magnitude of the target speed, or to the maximum speed when the magnitude exceeds it:
  for finite values, to the smaller one of \<open>\<bar>target speed\<bar>\<close> and the maximum speed. The
  sign of the target speed is dropped. Nothing else of the controller changes.
\<close>

theorem executeCommand_accepts:
  assumes "motors c (cmdID cmd) = Some m" and "IsEnabled m"
    and "\<not> flt (cmdPosition cmd) (MinPosition m)" and "\<not> fgt (cmdPosition cmd) (MaxPosition m)"
  shows "executeCommand cmd c =
           (None, c\<lparr>motors := (motors c)(cmdID cmd \<mapsto>
              m\<lparr>Position := cmdPosition cmd,
                Speed := (if fgt (fabs (cmdSpeed cmd)) (MaxSpeed m) then MaxSpeed m
                          else fabs (cmdSpeed cmd))\<rparr>)\<rparr>) \<and>
         (\<forall>a b. cmdSpeed cmd = Fin a \<and> MaxSpeed m = Fin b \<longrightarrow>
            (if fgt (fabs (cmdSpeed cmd)) (MaxSpeed m) then MaxSpeed m
             else fabs (cmdSpeed cmd)) = Fin (min \<bar>a\<bar> b)) \<and>
         (fle (MinPosition m) (cmdPosition cmd) \<and> fle (cmdPosition cmd) (MaxPosition m) \<longrightarrow>
            \<not> flt (cmdPosition cmd) (MinPosition m) \<and> \<not> fgt (cmdPosition cmd) (MaxPosition m))"
  using assms by (auto simp: executeCommand_def Let_def min_def fgt_def dest: fle_not_flt)

theorem executeCommand_accepts_witness:
  "executeCommand cmd_reverse NewController =
     (None, NewController\<lparr>motors := (motors NewController)(''servo_1'' \<mapsto>
        servo_1\<lparr>Position := Fin 90, Speed := Fin 50\<rparr>)\<rparr>)"
proof -
  have h: "motors NewController (cmdID cmd_reverse) = Some servo_1"
    by (simp add: NewController_def cmd_reverse_def)
  have b: "IsEnabled servo_1" "\<not> flt (cmdPosition cmd_reverse) (MinPosition servo_1)"
     "\<not> fgt (cmdPosition cmd_reverse) (MaxPosition servo_1)"
    by (simp_all add: servo_1_def cmd_reverse_def fgt_def)
  have v: "(if fgt (fabs (cmdSpeed cmd_reverse)) (MaxSpeed servo_1) then MaxSpeed servo_1
            else fabs (cmdSpeed cmd_reverse)) = Fin 50"
      "cmdID cmd_reverse = ''servo_1''" "cmdPosition cmd_reverse = Fin 90"
    by (simp_all add: servo_1_def cmd_reverse_def fgt_def)
  show ?thesis
    using executeCommand_accepts [OF h b] by (simp add: v)
qed

text \<open>The target speed -50 has a magnitude below the maximum speed 180 of servo_1, so
  clamping leaves it as it is; the command is accepted, and the motor's speed becomes 50.\<close>

theorem negative_speed_counterexample:
  "cmdSpeed cmd_reverse = Fin (- 50) \<and>
   fle (fabs (cmdSpeed cmd_reverse)) (MaxSpeed servo_1) \<and>
   fst (executeCommand cmd_reverse NewController) = None \<and>
   map_option Speed (motors (snd (executeCommand cmd_reverse NewController)) ''servo_1'')
     = Some (Fin 50) \<and>
   map_option Speed (motors (snd (executeCommand cmd_reverse NewController)) ''servo_1'')
     \<noteq> Some (cmdSpeed cmd_reverse)"
  by (simp add: executeCommand_def NewController_def cmd_reverse_def servo_1_def Let_def
      fgt_def)

section \<open>Shutdown and ingestion after shutdown\<close>

lemma Hub_Shutdown_New: "Hub_Shutdown NewHub = Returns closed_hub"
  by (simp add: Hub_Shutdown_def NewHub_def closed_hub_def close_chan_def make_chan_def Let_def)

lemma Analyzer_Shutdown_New: "Analyzer_Shutdown NewAnalyzer = Returns closed_analyzer"
  by (simp add: Analyzer_Shutdown_def NewAnalyzer_def closed_analyzer_def close_chan_def
      make_chan_def Let_def)

lemma Hub_Shutdown_closes:
  "Hub_Shutdown h = Returns h' \<Longrightarrow>
     chan_closed (hub_done h') \<and> chan_closed (dataChan h') \<and> sensors h' = sensors h"
  by (auto simp: Hub_Shutdown_def close_chan_def Let_def split: if_splits)

lemma Analyzer_Shutdown_closes:
  "Analyzer_Shutdown a = Returns a' \<Longrightarrow> chan_closed (an_done a')"
  by (auto simp: Analyzer_Shutdown_def close_chan_def Let_def split: if_splits)

lemma Controller_Shutdown_closes:
  "Controller_Shutdown c = Returns c' \<Longrightarrow> chan_closed (ctl_done c') \<and> \<not> running c'"
  by (auto simp: Controller_Shutdown_def close_chan_def Let_def split: if_splits)

text \<open>
  C7, as the code has it. For the sensor hub, the motion controller and the behavior
  analyzer alike: when a call of \<^verbatim>\<open>Shutdown\<close> has returned, a second call does not return.
  It panics at its first \<^verbatim>\<open>close\<close>, on the channel \<^verbatim>\<open>done\<close> that the first call closed, and
  the component is at that moment as the first call left it.
\<close>

theorem second_shutdown_panics:
  "(Hub_Shutdown h = Returns h' \<longrightarrow> Hub_Shutdown h' = Panics CloseOfClosedChannel h') \<and>
   (Controller_Shutdown c = Returns c' \<longrightarrow>
      Controller_Shutdown c' = Panics CloseOfClosedChannel c') \<and>
   (Analyzer_Shutdown a = Returns a' \<longrightarrow>
      Analyzer_Shutdown a' = Panics CloseOfClosedChannel a')"
proof (intro conjI impI)
  assume "Hub_Shutdown h = Returns h'"
  from Hub_Shutdown_closes [OF this] show "Hub_Shutdown h' = Panics CloseOfClosedChannel h'"
    by (simp add: Hub_Shutdown_def close_chan_def)
next
  assume "Controller_Shutdown c = Returns c'"
  from Controller_Shutdown_closes [OF this]
  show "Controller_Shutdown c' = Panics CloseOfClosedChannel c'"
    by (simp add: Controller_Shutdown_def close_chan_def Let_def)
next
  assume "Analyzer_Shutdown a = Returns a'"
  from Analyzer_Shutdown_closes [OF this]
  show "Analyzer_Shutdown a' = Panics CloseOfClosedChannel a'"
    by (simp add: Analyzer_Shutdown_def close_chan_def)
qed

theorem second_shutdown_panics_witness:
  "Hub_Shutdown NewHub = Returns closed_hub \<and>
   Hub_Shutdown closed_hub = Panics CloseOfClosedChannel closed_hub \<and>
   Controller_Shutdown NewController = Returns stopped_controller \<and>
   Controller_Shutdown stopped_controller = Panics CloseOfClosedChannel stopped_controller \<and>
   Analyzer_Shutdown NewAnalyzer = Returns closed_analyzer \<and>
   Analyzer_Shutdown closed_analyzer = Panics CloseOfClosedChannel closed_analyzer"
  using second_shutdown_panics [of NewHub closed_hub NewController stopped_controller
      NewAnalyzer closed_analyzer]
  by (simp add: Hub_Shutdown_New Controller_Shutdown_New Analyzer_Shutdown_New)

text \<open>The second shutdown of each new component, computed: none of the three calls
  returns.\<close>

theorem shutdown_twice_counterexample:
  "Hub_Shutdown closed_hub = Panics CloseOfClosedChannel closed_hub \<and>
   Controller_Shutdown stopped_controller = Panics CloseOfClosedChannel stopped_controller \<and>
   Analyzer_Shutdown closed_analyzer = Panics CloseOfClosedChannel closed_analyzer"
  by (simp add: Hub_Shutdown_def closed_hub_def Controller_Shutdown_def stopped_controller_def
      Analyzer_Shutdown_def closed_analyzer_def close_chan_def Let_def)

text \<open>
  C8, as the code has it. \<^verbatim>\<open>AddSensorData\<close> has no result. On a hub whose data channel is
  closed, and so on every hub that a returned \<^verbatim>\<open>Shutdown\<close> has left, the call panics in
  its send on the closed channel instead of returning an error; the hub is unchanged at the
  panic, so the reading has reached neither the channel nor a buffer, and the buffers are
  those from before the shutdown.
\<close>

theorem ingest_after_shutdown_panics:
  "(chan_closed (dataChan h) \<longrightarrow> AddSensorData data h = Panics SendOnClosedChannel h) \<and>
   (Hub_Shutdown h0 = Returns h \<longrightarrow>
      AddSensorData data h = Panics SendOnClosedChannel h \<and> sensors h = sensors h0)"
proof (intro conjI impI)
  show "AddSensorData data h = Panics SendOnClosedChannel h" if "chan_closed (dataChan h)"
    using that by (simp add: AddSensorData_def send_chan_def)
  show "AddSensorData data h = Panics SendOnClosedChannel h" if "Hub_Shutdown h0 = Returns h"
    using Hub_Shutdown_closes [OF that] by (simp add: AddSensorData_def send_chan_def)
  show "sensors h = sensors h0" if "Hub_Shutdown h0 = Returns h"
    using Hub_Shutdown_closes [OF that] by simp
qed

theorem ingest_after_shutdown_panics_witness:
  "Hub_Shutdown NewHub = Returns closed_hub \<and> chan_closed (dataChan closed_hub) \<and>
   AddSensorData reading0 closed_hub = Panics SendOnClosedChannel closed_hub \<and>
   sensors closed_hub = sensors NewHub"
  using ingest_after_shutdown_panics [of closed_hub reading0 NewHub]
  by (simp add: Hub_Shutdown_New) (simp add: closed_hub_def)

text \<open>A touch reading submitted to a new hub after its shutdown: the call panics, it does
  not return.\<close>

theorem ingest_after_shutdown_counterexample:
  "Hub_Shutdown NewHub = Returns closed_hub \<and>
   AddSensorData reading0 closed_hub = Panics SendOnClosedChannel closed_hub"
  by (simp add: Hub_Shutdown_New)
     (simp add: AddSensorData_def send_chan_def closed_hub_def)

section \<open>Behavior analyzer: classification and history\<close>

lemma sum_buffer_folds:
  "sum_buffer buffer (i, f, d, c) =
     (foldl fadd i (map Intensity buffer), foldl fadd f (map Frequency buffer),
      foldl fadd d (map Duration buffer), foldl fadd c (map Consistency buffer))"
  by (induction buffer arbitrary: i f d c) simp_all

lemma calculateConfidence_range:
  "c \<noteq> NaN \<Longrightarrow> fle (Fin 0) (calculateConfidence c) \<and> fle (calculateConfidence c) (Fin 1)"
  by (cases c) (auto simp: calculateConfidence_def Let_def fgt_def)

text \<open>
  C3, as the code has it. For every non-empty buffer, the metrics of the pattern that
  \<^verbatim>\<open>analyzeBuffer\<close> returns are the \<^verbatim>\<open>float64\<close> averages of the four fields: the running
  sum from 0 in the order of the buffer, divided by the converted length, every operation
  rounded to the nearest \<^verbatim>\<open>float64\<close>. Its type is aggressive when the averages of intensity
  and frequency both exceed the \<^verbatim>\<open>float64\<close> constant 0.8; otherwise passive when both are
  below the constant 0.2; otherwise erratic when the magnitude of their rounded difference
  exceeds 0.5; otherwise normal. When the average of consistency is not NaN, the confidence
  is that average clamped into the interval from 0 to 1.
\<close>

theorem analyzeBuffer_float_average:
  assumes "buffer \<noteq> []"
  shows "Metrics (analyzeBuffer now buffer) =
           \<lparr>Intensity = favg (map Intensity buffer), Frequency = favg (map Frequency buffer),
            Duration = favg (map Duration buffer),
            Consistency = favg (map Consistency buffer)\<rparr> \<and>
         bpType (analyzeBuffer now buffer) =
           (if fgt (favg (map Intensity buffer)) (round64 0.8) \<and>
               fgt (favg (map Frequency buffer)) (round64 0.8)
            then BehaviorAggressive
            else if flt (favg (map Intensity buffer)) (round64 0.2) \<and>
                    flt (favg (map Frequency buffer)) (round64 0.2)
            then BehaviorPassive
            else if fgt (fabs (fsub (favg (map Intensity buffer)) (favg (map Frequency buffer))))
                      (Fin 0.5)
            then BehaviorErratic
            else BehaviorNormal) \<and>
         (favg (map Consistency buffer) \<noteq> NaN \<longrightarrow>
            Confidence (analyzeBuffer now buffer) =
              (if fgt (favg (map Consistency buffer)) (Fin 1) then Fin 1
               else if flt (favg (map Consistency buffer)) (Fin 0) then Fin 0
               else favg (map Consistency buffer)) \<and>
            fle (Fin 0) (Confidence (analyzeBuffer now buffer)) \<and>
            fle (Confidence (analyzeBuffer now buffer)) (Fin 1))"
proof -
  have c: "Confidence (analyzeBuffer now buffer)
             = calculateConfidence (favg (map Consistency buffer))"
    using assms by (simp add: analyzeBuffer_def sum_buffer_folds favg_def Let_def)
  show ?thesis
    using assms calculateConfidence_range [of "favg (map Consistency buffer)"]
    unfolding c
    by (simp add: analyzeBuffer_def sum_buffer_folds favg_def classifyBehavior_def Let_def)
       (simp add: calculateConfidence_def)
qed

lemma favg_sample:
  "favg (map Intensity sample_buffer) = Fin 1" "favg (map Frequency sample_buffer) = Fin 1"
  "favg (map Duration sample_buffer) = Fin 2" "favg (map Consistency sample_buffer) = Fin (3 / 2)"
  by (simp_all add: favg_def sample_buffer_def round64_1 round64_2 round64_3 round64_4 round64_3_2)

theorem analyzeBuffer_float_average_witness:
  "sample_buffer \<noteq> [] \<and>
   bpType (analyzeBuffer 5 sample_buffer) = BehaviorAggressive \<and>
   Confidence (analyzeBuffer 5 sample_buffer) = Fin 1 \<and>
   Metrics (analyzeBuffer 5 sample_buffer) =
     \<lparr>Intensity = Fin 1, Frequency = Fin 1, Duration = Fin 2, Consistency = Fin (3 / 2)\<rparr>"
proof -
  have ne: "sample_buffer \<noteq> []" by (simp add: sample_buffer_def)
  show ?thesis
    using analyzeBuffer_float_average [OF ne, of 5] ne
    by (simp add: favg_sample round64_consts fgt_def)
qed

text \<open>A buffer of one sample with intensity 1 and frequency just below one half, both
  \<^verbatim>\<open>float64\<close> numbers. The arithmetic means are these two numbers; they differ by more than
  0.5, so the rule of the claim gives erratic. The code rounds the difference to 0.5, which
  does not exceed 0.5, and returns normal. And a buffer of one sample whose consistency is
  NaN: the confidence is NaN, which is neither at least 0 nor at most 1.\<close>

theorem rounded_difference_counterexample:
  "is_f64 (Fin 1) \<and> is_f64 (Fin (1 / 2 - 1 / 2 ^ 54)) \<and>
   bpType (analyzeBuffer 0 tie_buffer) = BehaviorNormal \<and>
   spec_classify (mean (map (fin_value \<circ> Intensity) tie_buffer))
                 (mean (map (fin_value \<circ> Frequency) tie_buffer)) = BehaviorErratic \<and>
   Confidence (analyzeBuffer 0 nan_buffer) = NaN \<and>
   \<not> fle (Fin 0) (Confidence (analyzeBuffer 0 nan_buffer)) \<and>
   \<not> fle (Confidence (analyzeBuffer 0 nan_buffer)) (Fin 1)"
proof -
  have ne: "tie_buffer \<noteq> []" by (simp add: tie_buffer_def)
  have t: "bpType (analyzeBuffer 0 tie_buffer) = BehaviorNormal"
    by (simp add: analyzeBuffer_def sum_buffer_folds classifyBehavior_def Let_def tie_buffer_def
        round64_1 round64_consts round64_near_half fgt_def fsub_def)
  have r: "is_f64 (Fin 1) \<and> is_f64 (Fin (1 / 2 - 1 / 2 ^ 54))"
    by (simp add: is_f64_def round64_1 round64_near_half)
  have s: "spec_classify (mean (map (fin_value \<circ> Intensity) tie_buffer))
                 (mean (map (fin_value \<circ> Frequency) tie_buffer)) = BehaviorErratic"
    by (simp add: spec_classify_def mean_def tie_buffer_def)
  have n: "Confidence (analyzeBuffer 0 nan_buffer) = NaN"
    by (simp add: analyzeBuffer_def sum_buffer_folds calculateConfidence_def Let_def
        nan_buffer_def round64_1 fgt_def)
  from t r s n show ?thesis by simp
qed

lemma addPattern_length:
  "length (patterns a) \<le> 1000 \<Longrightarrow> length (patterns (addPattern p a)) \<le> 1000"
  by (auto simp: addPattern_def Let_def)

lemma processPatterns_length:
  "length (patterns a) \<le> 1000 \<Longrightarrow> length (patterns (processPatterns evs buffer a)) \<le> 1000"
  by (induction evs buffer a rule: processPatterns.induct) (simp_all add: addPattern_length)

text \<open>
  C4. The history of an analyzer holds at most 1000 patterns: a new analyzer has an empty
  history (and threshold 0.75), and whatever its worker has processed since, the history
  has stayed within 1000. On such an analyzer, adding a pattern appends it to the history
  whatever its confidence is; a history of 1000 patterns loses its oldest pattern for it,
  so the history still holds at most 1000. The current state becomes the type of the
  pattern when the confidence of the pattern is greater than or equal to the threshold, and
  stays what it was when the confidence is below. The threshold itself does not change.
\<close>

theorem addPattern_history_and_state:
  assumes "length (GetPatternHistory a) \<le> 1000"
  shows "GetPatternHistory (addPattern p a) =
           (if length (GetPatternHistory a) < 1000 then GetPatternHistory a @ [p]
            else drop 1 (GetPatternHistory a) @ [p]) \<and>
         length (GetPatternHistory (addPattern p a)) \<le> 1000 \<and>
         GetCurrentState (addPattern p a) =
           (if fge (Confidence p) (threshold a) then bpType p else GetCurrentState a) \<and>
         threshold (addPattern p a) = threshold a \<and>
         threshold NewAnalyzer = Fin 0.75 \<and> GetPatternHistory NewAnalyzer = [] \<and>
         length (GetPatternHistory (processPatterns evs [] NewAnalyzer)) \<le> 1000"
proof -
  have "length (patterns (processPatterns evs [] NewAnalyzer)) \<le> 1000"
    by (rule processPatterns_length) (simp add: NewAnalyzer_def)
  then have reach: "length (GetPatternHistory (processPatterns evs [] NewAnalyzer)) \<le> 1000"
    by (simp add: GetPatternHistory_def)
  have step: "GetPatternHistory (addPattern p a) =
           (if length (GetPatternHistory a) < 1000 then GetPatternHistory a @ [p]
            else drop 1 (GetPatternHistory a) @ [p]) \<and>
         length (GetPatternHistory (addPattern p a)) \<le> 1000 \<and>
         GetCurrentState (addPattern p a) =
           (if fge (Confidence p) (threshold a) then bpType p else GetCurrentState a) \<and>
         threshold (addPattern p a) = threshold a"
    using assms
    by (auto simp: addPattern_def Let_def GetPatternHistory_def GetCurrentState_def)
  have init: "threshold NewAnalyzer = Fin 0.75 \<and> GetPatternHistory NewAnalyzer = []"
    by (simp add: NewAnalyzer_def GetPatternHistory_def)
  from step init reach show ?thesis
    by (elim conjE) (intro conjI; assumption)
qed

theorem addPattern_history_and_state_witness:
  "length (GetPatternHistory full_analyzer) \<le> 1000 \<and>
   GetPatternHistory (addPattern high_pattern full_analyzer)
     = replicate 999 low_pattern @ [high_pattern] \<and>
   GetCurrentState (addPattern high_pattern full_analyzer) = BehaviorAggressive \<and>
   GetPatternHistory (addPattern low_pattern NewAnalyzer) = [low_pattern] \<and>
   GetCurrentState (addPattern low_pattern NewAnalyzer) = BehaviorNormal"
proof -
  have a: "length (GetPatternHistory full_analyzer) \<le> 1000"
    by (simp add: full_analyzer_def GetPatternHistory_def)
  have b: "length (GetPatternHistory NewAnalyzer) \<le> 1000"
    by (simp add: NewAnalyzer_def GetPatternHistory_def)
  have c: "GetPatternHistory full_analyzer = replicate 1000 low_pattern"
    "threshold full_analyzer = Fin 0.75"
    "Confidence high_pattern = Fin 0.75" "bpType high_pattern = BehaviorAggressive"
    "Confidence low_pattern = Fin 0.5" "GetCurrentState NewAnalyzer = BehaviorNormal"
    by (simp_all add: full_analyzer_def NewAnalyzer_def high_pattern_def low_pattern_def
        GetPatternHistory_def GetCurrentState_def)
  show ?thesis
    using addPattern_history_and_state [OF a, where p = high_pattern and evs = "[]"]
      addPattern_history_and_state [OF b, where p = low_pattern and evs = "[]"] a
    by (simp add: c fge_def)
qed

section \<open>Sensor hub: the buffers hold the last 1000 readings\<close>

lemma sensors_at_store:
  "sensors_at (store_reading data h) t =
     (if sdType data = t
      then (if length (sensors_at h t) + 1 > 1000 then drop 1 (sensors_at h t @ [sdValue data])
            else sensors_at h t @ [sdValue data])
      else sensors_at h t)"
  by (simp add: store_reading_def sensors_at_def Let_def)

text \<open>Appending to a buffer within its capacity and dropping the oldest entry on overflow
  does not change which entries are the last \<open>n\<close> of everything appended.\<close>

lemma capped_append:
  assumes "length xs \<le> n"
  shows "drop (length ((if length xs + 1 > n then drop 1 (xs @ [v]) else xs @ [v]) @ ys) - n)
           ((if length xs + 1 > n then drop 1 (xs @ [v]) else xs @ [v]) @ ys)
         = drop (length (xs @ v # ys) - n) (xs @ v # ys)"
proof (cases "length xs + 1 > n")
  case False
  then show ?thesis by simp
next
  case True
  with assms have len: "length xs = n" by simp
  show ?thesis
  proof (cases xs)
    case Nil
    with len show ?thesis by simp
  next
    case (Cons x xs')
    with len have n: "n = Suc (length xs')" by simp
    have l: "drop 1 (xs @ [v]) @ ys = xs' @ v # ys" using Cons by simp
    have "drop (length (xs' @ v # ys) - n) (xs' @ v # ys) = drop (length ys) (xs' @ v # ys)"
      by (simp add: n)
    moreover
    have "drop (length (xs @ v # ys) - n) (xs @ v # ys) = drop (length ys) (xs' @ v # ys)"
      by (simp add: n Cons)
    ultimately show ?thesis using True l by simp
  qed
qed

lemma processData_buffer:
  "length (sensors_at h t) \<le> 1000 \<Longrightarrow>
   sensors_at (processData ds h) t =
     drop (length (sensors_at h t @ map sdValue (filter (\<lambda>d. sdType d = t) ds)) - 1000)
          (sensors_at h t @ map sdValue (filter (\<lambda>d. sdType d = t) ds))"
proof (induction ds arbitrary: h)
  case Nil
  then show ?case by simp
next
  case (Cons d ds)
  have len: "length (sensors_at (store_reading d h) t) \<le> 1000"
    using Cons.prems by (auto simp: sensors_at_store)
  show ?case
  proof (cases "sdType d = t")
    case True
    show ?thesis
      using Cons.IH [OF len] True
        capped_append [OF Cons.prems, of "sdValue d"
          "map sdValue (filter (\<lambda>d. sdType d = t) ds)"]
      by (simp add: sensors_at_store)
  next
    case False
    then show ?thesis using Cons.IH [OF len] by (simp add: sensors_at_store)
  qed
qed

lemma GetSensorData_sensors_at: "GetSensorData t h = sensors_at h t"
  by (simp add: GetSensorData_def sensors_at_def split: option.splits)

lemma sensors_at_NewHub: "sensors_at NewHub t = []"
  by (simp add: sensors_at_def NewHub_def)

text \<open>
  C6. Let the worker of a new hub process any sequence of readings. The snapshot of a
  category is then the sequence of the values of the readings of that category, in the
  order of their arrival, without all but its last 1000 entries: the oldest entries are the
  ones that were dropped, the most recent value is last, and the snapshot never holds more
  than 1000 values.
\<close>

theorem snapshot_is_last_1000:
  "GetSensorData t (processData ds NewHub) =
     drop (length (map sdValue (filter (\<lambda>d. sdType d = t) ds)) - 1000)
          (map sdValue (filter (\<lambda>d. sdType d = t) ds)) \<and>
   length (GetSensorData t (processData ds NewHub)) \<le> 1000"
proof -
  have "length (sensors_at NewHub t) \<le> 1000" by (simp add: sensors_at_NewHub)
  from processData_buffer [OF this, of ds]
  have eq: "GetSensorData t (processData ds NewHub) =
     drop (length (map sdValue (filter (\<lambda>d. sdType d = t) ds)) - 1000)
          (map sdValue (filter (\<lambda>d. sdType d = t) ds))"
    by (simp add: GetSensorData_sensors_at sensors_at_NewHub)
  then show ?thesis by simp
qed

section \<open>Safety monitor: escalation\<close>

lemma safety_inv_init: "safety_inv (InitializeSafetyProtocols now)"
  by (simp add: safety_inv_def InitializeSafetyProtocols_def level_for_def)

lemma safety_inv_step: "safety_inv s \<Longrightarrow> safety_inv (apply_safety_op x s)"
  by (cases x)
     (auto simp: safety_inv_def AddWarning_def performSafetyCheck_def level_for_def Let_def)

lemma safety_inv_run: "safety_inv s \<Longrightarrow> safety_inv (run_safety ops s)"
  by (induction ops arbitrary: s) (simp_all add: safety_inv_step)

lemma warnings_step:
  "length (warnings (apply_safety_op x s)) =
     length (warnings s) + (if is_add_warning x then 1 else 0)"
  by (cases x) (simp_all add: AddWarning_def performSafetyCheck_def Let_def)

lemma warnings_run:
  "length (warnings (run_safety ops s)) =
     length (warnings s) + length (filter is_add_warning ops)"
  by (induction ops arbitrary: s) (simp_all add: warnings_step)

lemma level_for_mono: "i \<le> j \<Longrightarrow> level_for i \<le> level_for j"
  by (simp add: level_for_def SafetyNormal_def SafetyWarning_def SafetyCritical_def)

lemma level_run_init:
  "currentLevel (run_safety ops (InitializeSafetyProtocols now)) =
     level_for (length (filter is_add_warning ops))"
  using safety_inv_run [OF safety_inv_init, of ops now]
  by (simp add: safety_inv_def warnings_run InitializeSafetyProtocols_def)

text \<open>
  C5. Let the monitor go through any sequence of \<^verbatim>\<open>AddWarning\<close> calls and periodic checks
  after its initialisation. When the sequence holds 11 calls of \<^verbatim>\<open>AddWarning\<close> or more, the
  level is at least warning; when it holds 21 or more, the level is at least critical; and
  however the sequence is continued, the level after the continuation is not below the
  level before it. (The monitor has no reset operation.)
\<close>

theorem safety_level_escalates:
  "(11 \<le> length (filter is_add_warning ops) \<longrightarrow>
      SafetyWarning \<le> GetCurrentLevel (run_safety ops (InitializeSafetyProtocols now))) \<and>
   (21 \<le> length (filter is_add_warning ops) \<longrightarrow>
      SafetyCritical \<le> GetCurrentLevel (run_safety ops (InitializeSafetyProtocols now))) \<and>
   GetCurrentLevel (run_safety ops (InitializeSafetyProtocols now))
     \<le> GetCurrentLevel (run_safety (ops @ later) (InitializeSafetyProtocols now))"
proof -
  have "level_for (length (filter is_add_warning ops))
          \<le> level_for (length (filter is_add_warning (ops @ later)))"
    by (rule level_for_mono) simp
  then show ?thesis
    by (simp add: GetCurrentLevel_def level_run_init)
       (simp add: level_for_def SafetyNormal_def SafetyWarning_def SafetyCritical_def)
qed

theorem safety_level_escalates_witness:
  "SafetyWarning \<le> GetCurrentLevel
     (run_safety (replicate 11 (OpAddWarning ''w'')) (InitializeSafetyProtocols 0)) \<and>
   SafetyCritical \<le> GetCurrentLevel
     (run_safety (replicate 21 (OpAddWarning ''w'')) (InitializeSafetyProtocols 0))"
  using safety_level_escalates [of "replicate 11 (OpAddWarning ''w'')" 0 "[]"]
    safety_level_escalates [of "replicate 21 (OpAddWarning ''w'')" 0 "[]"]
  by simp

text \<open>
  C10. After any sequence of \<^verbatim>\<open>AddWarning\<close> calls and periodic checks that follows the
  initialisation, the level of the monitor is normal, warning or critical; it is never
  emergency.
\<close>

theorem emergency_never_assigned:
  "GetCurrentLevel (run_safety ops (InitializeSafetyProtocols now))
     \<in> {SafetyNormal, SafetyWarning, SafetyCritical} \<and>
   GetCurrentLevel (run_safety ops (InitializeSafetyProtocols now)) \<noteq> SafetyEmergency"
  by (simp add: GetCurrentLevel_def level_run_init level_for_def SafetyNormal_def
      SafetyWarning_def SafetyCritical_def SafetyEmergency_def)

end
